theory Spec2Isabelle
  imports Main "HOL-Library.Char_ord" "HOL-Library.Word"
begin

unbundle bit_operations_syntax

section \<open>The Pocket API client (pocket.go)\<close>

text \<open>
  The client is a thin layer over Go's standard library. The functions of pocket.go are
  embedded as they are written; the library functions they call (strings, fmt, net/url,
  net/textproto, encoding/json) are embedded next to them, for the part this program
  uses. A Go string is a sequence of bytes: \<^typ>\<open>string\<close>, a list of 8-bit characters.
\<close>

subsection \<open>Errors\<close>

text \<open>
  \<open>New msg\<close> is \<open>errors.New(msg)\<close>, the error whose text is \<open>msg\<close>, and
  \<open>WithMessage err msg\<close> is \<open>errors.WithMessage(err, msg)\<close> of github.com/pkg/errors.
  The other constructors are the errors the standard library hands to pocket.go:
  \<open>EscapeError\<close> and \<open>InvalidSemicolon\<close> from \<open>url.ParseQuery\<close>, \<open>NilContext\<close> from
  \<open>http.NewRequestWithContext\<close>, and \<open>Foreign\<close> for an error that comes from outside
  the program (the transport, reading the response body, a value that cannot be
  marshalled), with its text.
\<close>

datatype error =
    New string
  | WithMessage error string
  | EscapeError string
  | InvalidSemicolon
  | NilContext
  | Foreign string

subsection \<open>package strings\<close>

text \<open>
  \<open>strings.Cut(s, sep)\<close> for a separator of one byte: the text before the first
  \<open>sep\<close>, the text after it, and whether \<open>sep\<close> occurs. When it does not occur the
  result is \<open>(s, "", false)\<close>.
\<close>

definition Cut :: "string \<Rightarrow> char \<Rightarrow> string \<times> string \<times> bool" where
  "Cut s sep = (takeWhile (\<lambda>c. c \<noteq> sep) s, drop 1 (dropWhile (\<lambda>c. c \<noteq> sep) s), sep \<in> set s)"

text \<open>
  \<open>strings.Join(elems, sep)\<close>: the empty string for no element, the element itself
  for one, otherwise the first element followed by \<open>sep\<close> and the next element, for
  each further element in turn.
\<close>

fun Join :: "string list \<Rightarrow> string \<Rightarrow> string" where
  "Join [] sep = []"
| "Join [e] sep = e"
| "Join (e # elems) sep = fold (\<lambda>s b. b @ sep @ s) elems e"

subsection \<open>package net/url: ParseQuery and Values\<close>

type_synonym Values = "string \<rightharpoonup> string list"

text \<open>\<open>Values.Get\<close>: the first value of the key, the empty string when there is none.\<close>

definition Values_Get :: "Values \<Rightarrow> string \<Rightarrow> string" where
  "Values_Get v key =
     (case v key of
        None \<Rightarrow> []
      | Some vs \<Rightarrow> (case vs of [] \<Rightarrow> [] | x # _ \<Rightarrow> x))"

definition ishex :: "char \<Rightarrow> bool" where
  "ishex c =
     (if CHR ''0'' \<le> c \<and> c \<le> CHR ''9'' then True
      else if CHR ''a'' \<le> c \<and> c \<le> CHR ''f'' then True
      else if CHR ''A'' \<le> c \<and> c \<le> CHR ''F'' then True
      else False)"

definition byte :: "char \<Rightarrow> 8 word" where
  "byte c = of_nat (of_char c)"

definition char_of_byte :: "8 word \<Rightarrow> char" where
  "char_of_byte w = char_of (unat w)"

definition unhex :: "char \<Rightarrow> 8 word" where
  "unhex c =
     (if CHR ''0'' \<le> c \<and> c \<le> CHR ''9'' then byte c - byte CHR ''0''
      else if CHR ''a'' \<le> c \<and> c \<le> CHR ''f'' then byte c - byte CHR ''a'' + 10
      else if CHR ''A'' \<le> c \<and> c \<le> CHR ''F'' then byte c - byte CHR ''A'' + 10
      else 0)"

text \<open>
  \<open>unescape(s, encodeQueryComponent)\<close> has two loops. The first checks that every
  \<open>%\<close> is followed by two hexadecimal digits, and fails with the \<open>EscapeError\<close> of
  the offending text (at most three bytes) otherwise.
\<close>

fun unescape_check :: "string \<Rightarrow> error option" where
  "unescape_check [] = None"
| "unescape_check (c # s) =
     (if c = CHR ''%'' then
        (case s of
           a # b # rest \<Rightarrow>
             if \<not> ishex a \<or> \<not> ishex b then Some (EscapeError (take 3 (c # s)))
             else unescape_check rest
         | _ \<Rightarrow> Some (EscapeError (take 3 (c # s))))
      else unescape_check s)"

text \<open>
  The second loop writes the result: \<open>%XY\<close> becomes the byte
  \<open>unhex(X)<<4 | unhex(Y)\<close>, \<open>+\<close> becomes a space. It runs only on a string that
  passed the first loop, where every \<open>%\<close> has its two digits; the last case of the
  inner \<open>case\<close> is not reached.
\<close>

fun unescape_write :: "string \<Rightarrow> string" where
  "unescape_write [] = []"
| "unescape_write (c # s) =
     (if c = CHR ''%'' then
        (case s of
           a # b # rest \<Rightarrow> char_of_byte (push_bit 4 (unhex a) OR unhex b) # unescape_write rest
         | _ \<Rightarrow> [])
      else if c = CHR ''+'' then CHR '' '' # unescape_write s
      else c # unescape_write s)"

text \<open>
  \<open>url.QueryUnescape\<close>. Between the loops, a string with no \<open>%\<close> and no \<open>+\<close> is
  returned as it is.
\<close>

definition QueryUnescape :: "string \<Rightarrow> error + string" where
  "QueryUnescape s =
     (case unescape_check s of
        Some err \<Rightarrow> Inl err
      | None \<Rightarrow>
          if CHR ''%'' \<notin> set s \<and> CHR ''+'' \<notin> set s then Inr s
          else Inr (unescape_write s))"

text \<open>
  The body of the loop of \<open>parseQuery\<close>, for one \<open>&\<close>-separated piece \<open>key\<close>: the map
  and the error after the piece. A piece with a semicolon sets the error (Go 1.17 and
  later; before, a semicolon separated pieces as \<open>&\<close> does); an empty piece is
  skipped; otherwise the piece is cut at its first \<open>=\<close>, both halves are unescaped,
  and the value is appended to the values of the key. The first unescape error is
  kept, and the piece is dropped.
\<close>

definition parseQuery_step :: "Values \<Rightarrow> error option \<Rightarrow> string \<Rightarrow> Values \<times> error option" where
  "parseQuery_step m err key =
     (if CHR '';'' \<in> set key then (m, Some InvalidSemicolon)
      else if key = [] then (m, err)
      else
        (case Cut key CHR ''='' of
           (k, v, _) \<Rightarrow>
             (case QueryUnescape k of
                Inl err1 \<Rightarrow> (m, if err = None then Some err1 else err)
              | Inr k' \<Rightarrow>
                  (case QueryUnescape v of
                     Inl err1 \<Rightarrow> (m, if err = None then Some err1 else err)
                   | Inr v' \<Rightarrow>
                       (m(k' \<mapsto> (case m k' of None \<Rightarrow> [] | Some vs \<Rightarrow> vs) @ [v']), err)))))"

text \<open>The loop \<open>for query != ""\<close>: cut the query at its first \<open>&\<close>, handle the piece, go on.\<close>

function parseQuery :: "Values \<Rightarrow> string \<Rightarrow> error option \<Rightarrow> Values \<times> error option" where
  "parseQuery m query err =
     (if query = [] then (m, err)
      else
        (case parseQuery_step m err (fst (Cut query CHR ''&'')) of
           (m', err') \<Rightarrow> parseQuery m' (fst (snd (Cut query CHR ''&''))) err'))"
  by pat_completeness auto
termination
proof (relation "measure (\<lambda>(m, query, err). length query)")
  show "wf (measure (\<lambda>(m, query, err). length query))"
    by simp
next
  fix m :: Values and query :: string and err :: "error option" and x :: "Values \<times> error option"
    and m' :: Values and err' :: "error option"
  assume ne: "query \<noteq> []"
  have shorter: "length (drop 1 ys) < length query" if "length ys \<le> length query" for ys :: string
    using that ne by (cases ys) simp_all
  have "length (drop 1 (dropWhile (\<lambda>c. c \<noteq> CHR ''&'') query)) < length query"
    by (rule shorter) (rule length_dropWhile_le)
  then show "((m', fst (snd (Cut query CHR ''&'')), err'), (m, query, err))
      \<in> measure (\<lambda>(m, query, err). length query)"
    unfolding Cut_def by simp
qed

text \<open>\<open>url.ParseQuery\<close>: the map built, and the first error met, if any.\<close>

definition ParseQuery :: "string \<Rightarrow> Values \<times> error option" where
  "ParseQuery query = parseQuery Map.empty query None"

subsection \<open>package fmt: Sprintf\<close>

text \<open>
  \<open>fmt.Sprintf\<close> on string operands, for the formats of this program: text with the
  verbs \<open>%s\<close> and \<open>%v\<close> (the operand as it is, not scanned again) and \<open>%%\<close>. A verb
  with no operand left prints \<open>%!s(MISSING)\<close>, operands left over are listed after
  \<open>%!(EXTRA\<close>, and another verb letter prints as a bad verb. Flags, widths and the
  verbs \<open>q\<close>, \<open>x\<close> and \<open>X\<close> are outside the model; no format of pocket.go has them.
\<close>

definition Sprintf_extra :: "string list \<Rightarrow> string" where
  "Sprintf_extra args =
     (if args = [] then []
      else ''%!(EXTRA '' @ Join (map (\<lambda>a. ''string='' @ a) args) '', '' @ '')'')"

fun Sprintf :: "string \<Rightarrow> string list \<Rightarrow> string" where
  "Sprintf [] args = Sprintf_extra args"
| "Sprintf [c] args =
     (if c = CHR ''%'' then ''%!(NOVERB)'' @ Sprintf_extra args else c # Sprintf_extra args)"
| "Sprintf (c # v # format) args =
     (if c \<noteq> CHR ''%'' then c # Sprintf (v # format) args
      else if v = CHR ''%'' then CHR ''%'' # Sprintf format args
      else
        (case args of
           [] \<Rightarrow> ''%!'' @ [v] @ ''(MISSING)'' @ Sprintf format []
         | a # rest \<Rightarrow>
             (if v = CHR ''s'' \<or> v = CHR ''v'' then a
              else ''%!'' @ [v] @ ''(string='' @ a @ '')'') @ Sprintf format rest))"

subsection \<open>package net/textproto and net/http: headers\<close>

type_synonym Header = "string \<rightharpoonup> string list"

text \<open>The bytes of an HTTP token (RFC 7230): letters, digits and some punctuation.\<close>

definition validHeaderFieldByte :: "char \<Rightarrow> bool" where
  "validHeaderFieldByte c =
     ((CHR ''0'' \<le> c \<and> c \<le> CHR ''9'') \<or> (CHR ''a'' \<le> c \<and> c \<le> CHR ''z'') \<or>
      (CHR ''A'' \<le> c \<and> c \<le> CHR ''Z'') \<or> c = CHR 0x27 \<or> List.member ''!#$%&*+-.^_`|~'' c)"

text \<open>
  The loop of \<open>canonicalMIMEHeaderKey\<close>: the first letter and every letter after a
  dash in upper case, the other letters in lower case; \<open>toLower\<close> is \<open>'a' - 'A'\<close>, 32.
\<close>

fun canonicalize :: "bool \<Rightarrow> string \<Rightarrow> string" where
  "canonicalize upper [] = []"
| "canonicalize upper (c # a) =
     (let c' =
        (if upper \<and> CHR ''a'' \<le> c \<and> c \<le> CHR ''z'' then char_of_byte (byte c - 32)
         else if \<not> upper \<and> CHR ''A'' \<le> c \<and> c \<le> CHR ''Z'' then char_of_byte (byte c + 32)
         else c)
      in c' # canonicalize (c' = CHR ''-'') a)"

text \<open>
  \<open>textproto.CanonicalMIMEHeaderKey\<close>: a key with a byte that is not a token byte is
  returned unchanged.
\<close>

definition CanonicalMIMEHeaderKey :: "string \<Rightarrow> string" where
  "CanonicalMIMEHeaderKey s = (if list_all validHeaderFieldByte s then canonicalize True s else s)"

text \<open>\<open>Header.Get\<close> and \<open>Header.Set\<close>. A nil header is the empty map.\<close>

definition Header_Get :: "Header \<Rightarrow> string \<Rightarrow> string" where
  "Header_Get h key =
     (case h (CanonicalMIMEHeaderKey key) of
        None \<Rightarrow> []
      | Some v \<Rightarrow> (case v of [] \<Rightarrow> [] | x # _ \<Rightarrow> x))"

definition Header_Set :: "Header \<Rightarrow> string \<Rightarrow> string \<Rightarrow> Header" where
  "Header_Set h key val = h(CanonicalMIMEHeaderKey key \<mapsto> [val])"

subsection \<open>package encoding/json: struct tags and Marshal\<close>

text \<open>
  A struct field as \<open>encoding/json\<close> sees it by reflection: its Go name, the value of
  the \<open>json\<close> key of its struct tag, and its value. Every field of the structs of
  pocket.go is an exported string.
\<close>

record StructField =
  Name :: string
  Tag :: string
  Value :: string

text \<open>\<open>parseTag\<close>: the name before the first comma, and the options after it.\<close>

definition parseTag :: "string \<Rightarrow> string \<times> string" where
  "parseTag tag = (case Cut tag CHR '','' of (name, opt, _) \<Rightarrow> (name, opt))"

text \<open>
  \<open>tagOptions.Contains\<close>: whether one of the comma-separated options is exactly
  \<open>optionName\<close>. The options are not trimmed.
\<close>

function tagOptions_Contains :: "string \<Rightarrow> string \<Rightarrow> bool" where
  "tagOptions_Contains s optionName =
     (if s = [] then False
      else if fst (Cut s CHR '','') = optionName then True
      else tagOptions_Contains (fst (snd (Cut s CHR '',''))) optionName)"
  by pat_completeness auto
termination
proof (relation "measure (\<lambda>(s, optionName). length s)")
  show "wf (measure (\<lambda>(s, optionName). length s))"
    by simp
next
  fix s optionName :: string
  assume ne: "s \<noteq> []"
  have shorter: "length (drop 1 ys) < length s" if "length ys \<le> length s" for ys :: string
    using that ne by (cases ys) simp_all
  have "length (drop 1 (dropWhile (\<lambda>c. c \<noteq> CHR '','') s)) < length s"
    by (rule shorter) (rule length_dropWhile_le)
  then show "((fst (snd (Cut s CHR '','')), optionName), (s, optionName))
      \<in> measure (\<lambda>(s, optionName). length s)"
    unfolding Cut_def by simp
qed

text \<open>
  \<open>isValidTag\<close>, on ASCII: a name is valid when it is not empty and each byte is a
  letter, a digit or one of the punctuation bytes listed (the space among them).
\<close>

definition isValidTag :: "string \<Rightarrow> bool" where
  "isValidTag s =
     (s \<noteq> [] \<and>
      list_all (\<lambda>c. List.member ''!#$%&()*+-./:;<=>?@[]^_{|}~ '' c \<or>
                  (CHR ''a'' \<le> c \<and> c \<le> CHR ''z'') \<or> (CHR ''A'' \<le> c \<and> c \<le> CHR ''Z'') \<or>
                  (CHR ''0'' \<le> c \<and> c \<le> CHR ''9'')) s)"

text \<open>
  One field in \<open>typeFields\<close>: a field tagged \<open>-\<close> is left out; the key is the tag's
  name when that is valid and the Go name otherwise; the field is omitted when empty
  only if its options contain \<open>omitempty\<close>. The result is the key and the flag.
  The option \<open>string\<close>, which no tag of pocket.go has, is not modelled.
\<close>

definition typeField :: "StructField \<Rightarrow> (string \<times> bool) option" where
  "typeField sf =
     (if Tag sf = ''-'' then None
      else
        (case parseTag (Tag sf) of
           (name, opts) \<Rightarrow>
             Some ((if \<not> isValidTag name then Name sf else name),
                   tagOptions_Contains opts ''omitempty'')))"

text \<open>
  A marshalled value. The object a struct encodes to is kept as its members, key and
  string value, in the order of the fields; the escaping of the bytes inside the
  strings is not modelled. \<open>Raw\<close> is any other JSON text.
\<close>

datatype json = Object "(string \<times> string) list" | Raw string

text \<open>The struct encoder: each field in turn, skipped when \<open>omitEmpty\<close> and empty.\<close>

definition structEncoder :: "StructField list \<Rightarrow> json" where
  "structEncoder fs =
     Object (concat (map (\<lambda>sf.
        (case typeField sf of
           None \<Rightarrow> []
         | Some (name, omitEmpty) \<Rightarrow>
             if omitEmpty \<and> Value sf = [] then [] else [(name, Value sf)])) fs))"

subsection \<open>package net/http: requests, responses and the client\<close>

text \<open>
  A \<open>context.Context\<close> is an interface value: nil, the background context, or a
  context derived from it (numbered here).
\<close>

datatype "context" = nil_Context | Background | Derived nat

record Request =
  Method :: string
  URL :: string
  Header :: Header
  Body :: json
  ctx :: "context"

text \<open>
  A response as \<open>doHTTP\<close> uses it: the status code, the header, and what
  \<open>ioutil.ReadAll\<close> gives on the body, all its bytes or an error.
\<close>

record Response =
  StatusCode :: int
  Header :: Header
  Body :: "error + string"

definition StatusOK :: int where
  "StatusOK = 200"

definition MethodPost :: string where
  "MethodPost = ''POST''"

text \<open>
  \<open>http.NewRequestWithContext\<close> checks the method, the context and the URL. The
  method here is \<open>POST\<close> and the URL is \<open>host\<close> followed by one of the three endpoints,
  which \<open>url.Parse\<close> accepts, so the check that can fail is the one on the context.
\<close>

definition NewRequestWithContext :: "context \<Rightarrow> string \<Rightarrow> string \<Rightarrow> json \<Rightarrow> error + Request" where
  "NewRequestWithContext c method' url body =
     (if c = nil_Context then Inl NilContext
      else Inr \<lparr>Method = method', URL = url, Header = Map.empty, Body = body, ctx = c\<rparr>)"

subsection \<open>pocket.go: constants and types\<close>

definition host :: string where
  "host = ''https://getpocket.com/v3''"

definition authorizeUrl :: string where
  "authorizeUrl = ''https://getpocket.com/auth/authorize?request_token=%s&redirect_uri=%s''"

definition endpointAdd :: string where
  "endpointAdd = ''/add''"

definition endpointRequestToken :: string where
  "endpointRequestToken = ''/oauth/request''"

definition endpointAuthorize :: string where
  "endpointAuthorize = ''/oauth/authorize''"

definition xErrorHeader :: string where
  "xErrorHeader = ''X-Error''"

record requestTokenRequest =
  ConsumerKey :: string
  RedirectUrl :: string

record authorizeRequest =
  ConsumerKey :: string
  Code :: string

record AuthorizeResponse =
  Access_token :: string
  Username :: string

record addRequest =
  URL :: string
  Title :: string
  Tags :: string
  AccessToken :: string
  ConsumerKey :: string

record AddInput =
  URL :: string
  Title :: string
  Tags :: "string list"
  AccessToken :: string

text \<open>The fields of the three request structs, with the \<open>json\<close> tags of the source.\<close>

definition requestTokenRequest_fields :: "requestTokenRequest \<Rightarrow> StructField list" where
  "requestTokenRequest_fields r =
     [\<lparr>Name = ''ConsumerKey'', Tag = ''consumer_key'', Value = requestTokenRequest.ConsumerKey r\<rparr>,
      \<lparr>Name = ''RedirectUrl'', Tag = ''redirect_uri'', Value = RedirectUrl r\<rparr>]"

definition authorizeRequest_fields :: "authorizeRequest \<Rightarrow> StructField list" where
  "authorizeRequest_fields r =
     [\<lparr>Name = ''ConsumerKey'', Tag = ''consumer_key'', Value = authorizeRequest.ConsumerKey r\<rparr>,
      \<lparr>Name = ''Code'', Tag = ''code'', Value = Code r\<rparr>]"

definition addRequest_fields :: "addRequest \<Rightarrow> StructField list" where
  "addRequest_fields r =
     [\<lparr>Name = ''URL'', Tag = ''url'', Value = addRequest.URL r\<rparr>,
      \<lparr>Name = ''Title'', Tag = ''title, omitempty'', Value = addRequest.Title r\<rparr>,
      \<lparr>Name = ''Tags'', Tag = ''tags, omitempty'', Value = addRequest.Tags r\<rparr>,
      \<lparr>Name = ''AccessToken'', Tag = ''access_token'', Value = addRequest.AccessToken r\<rparr>,
      \<lparr>Name = ''ConsumerKey'', Tag = ''consumer_key'', Value = addRequest.ConsumerKey r\<rparr>]"

text \<open>
  The \<open>body interface{}\<close> of \<open>doHTTP\<close>: one of the three request structs, which is
  all the program passes, or another Go value, given by what \<open>json.Marshal\<close> returns
  on it.
\<close>

datatype body =
    RequestTokenRequest requestTokenRequest
  | AuthorizeRequest authorizeRequest
  | AddRequest addRequest
  | Other "error + json"

definition Marshal :: "body \<Rightarrow> error + json" where
  "Marshal v =
     (case v of
        RequestTokenRequest r \<Rightarrow> Inr (structEncoder (requestTokenRequest_fields r))
      | AuthorizeRequest r \<Rightarrow> Inr (structEncoder (authorizeRequest_fields r))
      | AddRequest r \<Rightarrow> Inr (structEncoder (addRequest_fields r))
      | Other res \<Rightarrow> res)"

definition validate :: "AddInput \<Rightarrow> error option" where
  "validate i =
     (if AddInput.URL i = [] then Some (New ''required URL is empty'')
      else if AddInput.AccessToken i = [] then Some (New ''access token is empty'')
      else None)"

definition generateRequest :: "AddInput \<Rightarrow> string \<Rightarrow> addRequest" where
  "generateRequest i consumerKey' =
     \<lparr>addRequest.URL = AddInput.URL i,
      Title = AddInput.Title i,
      Tags = Join (AddInput.Tags i) '','',
      AccessToken = AddInput.AccessToken i,
      ConsumerKey = consumerKey'\<rparr>"

text \<open>
  The client: its \<open>http.Client\<close>, seen through what \<open>Do\<close> returns on a request (an
  error of the transport, or the response), and the consumer key.
\<close>

record Client =
  client :: "Request \<Rightarrow> error + Response"
  consumerKey :: string

subsection \<open>pocket.go: the operations\<close>

text \<open>
  Each operation that can reach the network returns, with its result, the trace of
  what it did to the network: the requests it constructed and the requests it handed
  to \<open>Do\<close>, in order.
\<close>

datatype event = Constructed Request | Executed Request

text \<open>
  \<open>doHTTP\<close>. On an error the Go function returns the empty \<open>url.Values\<close> beside the
  error; no caller reads it, and the model returns the error alone.
\<close>

definition doHTTP :: "Client \<Rightarrow> context \<Rightarrow> string \<Rightarrow> body \<Rightarrow> (error + Values) \<times> event list" where
  "doHTTP c ctx' endpoint body' =
     (case Marshal body' of
        Inl err \<Rightarrow> (Inl (WithMessage err ''failed with marshal json''), [])
      | Inr b \<Rightarrow>
          (case NewRequestWithContext ctx' MethodPost (host @ endpoint) b of
             Inl err \<Rightarrow> (Inl (WithMessage err ''failed to send http request''), [])
           | Inr req0 \<Rightarrow>
               (let req = req0\<lparr>Request.Header :=
                            Header_Set (Request.Header req0) ''Content-type''
                              ''application/json; charset=UTF8''\<rparr>
                in
                  (case client c req of
                     Inl err \<Rightarrow>
                       (Inl (WithMessage err ''failed to send message request''),
                        [Constructed req, Executed req])
                   | Inr resp \<Rightarrow>
                       (if StatusCode resp \<noteq> StatusOK then
                          (Inl (New (Sprintf ''API Error: %s''
                                  [Header_Get (Response.Header resp) xErrorHeader])),
                           [Constructed req, Executed req])
                        else
                          (case Response.Body resp of
                             Inl err \<Rightarrow>
                               (Inl (WithMessage err ''failed to read response body''),
                                [Constructed req, Executed req])
                           | Inr respB \<Rightarrow>
                               (case ParseQuery respB of
                                  (vals, Some err) \<Rightarrow>
                                    (Inl (WithMessage err ''failed to parse response body''),
                                     [Constructed req, Executed req])
                                | (vals, None) \<Rightarrow>
                                    (Inr vals, [Constructed req, Executed req]))))))))"

definition GetRequestToken :: "Client \<Rightarrow> context \<Rightarrow> string \<Rightarrow> (error + string) \<times> event list" where
  "GetRequestToken c ctx' redirectUrl =
     (let inp = \<lparr>requestTokenRequest.ConsumerKey = consumerKey c, RedirectUrl = redirectUrl\<rparr>
      in
        (case doHTTP c ctx' endpointRequestToken (RequestTokenRequest inp) of
           (Inl err, tr) \<Rightarrow> (Inl err, tr)
         | (Inr vals, tr) \<Rightarrow>
             if Values_Get vals ''code'' = [] then
               (Inl (New ''empty request token in API response''), tr)
             else (Inr (Values_Get vals ''code''), tr)))"

definition GetAuthorizationURL :: "Client \<Rightarrow> string \<Rightarrow> string \<Rightarrow> error + string" where
  "GetAuthorizationURL c requestToken redirectUrl =
     (if requestToken = [] \<or> redirectUrl = [] then Inl (New ''empty request token'')
      else Inr (Sprintf authorizeUrl [requestToken, redirectUrl]))"

definition Authorize :: "Client \<Rightarrow> context \<Rightarrow> string \<Rightarrow> (error + AuthorizeResponse) \<times> event list" where
  "Authorize c ctx' requestToken =
     (if requestToken = [] then (Inl (New ''empty request token''), [])
      else
        (let inp = \<lparr>authorizeRequest.ConsumerKey = consumerKey c, Code = requestToken\<rparr>
         in
           (case doHTTP c ctx' endpointAuthorize (AuthorizeRequest inp) of
              (Inl err, tr) \<Rightarrow> (Inl err, tr)
            | (Inr vals, tr) \<Rightarrow>
                (let accessToken = Values_Get vals ''access_token'';
                     username = Values_Get vals ''username''
                 in
                   if accessToken = [] then
                     (Inl (New ''empty access token in API response''), tr)
                   else (Inr \<lparr>Access_token = accessToken, Username = username\<rparr>, tr)))))"

text \<open>\<open>Add\<close> returns an error or nil: \<open>Some\<close> error or \<open>None\<close>.\<close>

definition Add :: "Client \<Rightarrow> context \<Rightarrow> AddInput \<Rightarrow> error option \<times> event list" where
  "Add c ctx' input =
     (case validate input of
        Some err \<Rightarrow> (Some err, [])
      | None \<Rightarrow>
          (let req = generateRequest input (consumerKey c)
           in
             (case doHTTP c ctx' endpointAdd (AddRequest req) of
                (Inl err, tr) \<Rightarrow> (Some err, tr)
              | (Inr _, tr) \<Rightarrow> (None, tr))))"

subsection \<open>The client of the tests\<close>

text \<open>
  \<open>newClient(t, statusCode, path, body)\<close> of the test file: a client with the consumer
  key \<open>key\<close> whose transport answers every request with the given status code, no
  header, and the given body. The path is only compared with the request's by the
  test.
\<close>

definition newClient :: "int \<Rightarrow> string \<Rightarrow> string \<Rightarrow> Client" where
  "newClient statusCode path body' =
     \<lparr>client = (\<lambda>r. Inr \<lparr>StatusCode = statusCode, Header = Map.empty, Body = Inr body'\<rparr>),
      consumerKey = ''key''\<rparr>"

section \<open>Verification\<close>

subsection \<open>Facts about the library functions and the dispatch helper\<close>

lemma Sprintf_API_Error: "Sprintf ''API Error: %s'' [x] = ''API Error: '' @ x"
  by (simp add: Sprintf_extra_def)

lemma Sprintf_authorizeUrl:
  "Sprintf authorizeUrl [t, r] =
     ''https://getpocket.com/auth/authorize?request_token='' @ t @ ''&redirect_uri='' @ r"
  by (simp add: authorizeUrl_def Sprintf_extra_def)

lemma CanonicalMIMEHeaderKey_xErrorHeader: "CanonicalMIMEHeaderKey xErrorHeader = ''X-Error''"
  unfolding xErrorHeader_def by code_simp

lemma Header_Get_xErrorHeader:
  "Header_Get h xErrorHeader = (case h ''X-Error'' of None \<Rightarrow> [] | Some v \<Rightarrow> (case v of [] \<Rightarrow> [] | x # _ \<Rightarrow> x))"
  by (simp add: Header_Get_def CanonicalMIMEHeaderKey_xErrorHeader)

lemma doHTTP_Marshal_error:
  "Marshal body' = Inl err \<Longrightarrow>
   doHTTP c ctx' endpoint body' = (Inl (WithMessage err ''failed with marshal json''), [])"
  by (simp add: doHTTP_def Let_def)

lemma doHTTP_nil_Context:
  "Marshal body' = Inr b \<Longrightarrow>
   doHTTP c nil_Context endpoint body' = (Inl (WithMessage NilContext ''failed to send http request''), [])"
  by (simp add: doHTTP_def NewRequestWithContext_def)

lemma doHTTP_sent:
  assumes "Marshal body' = Inr b" and "ctx' \<noteq> nil_Context"
    and "req = \<lparr>Method = MethodPost, URL = host @ endpoint,
                 Header = Header_Set Map.empty ''Content-type'' ''application/json; charset=UTF8'',
                 Body = b, ctx = ctx'\<rparr>"
  shows "doHTTP c ctx' endpoint body' =
     ((case client c req of
         Inl err \<Rightarrow> Inl (WithMessage err ''failed to send message request'')
       | Inr resp \<Rightarrow>
          if StatusCode resp \<noteq> 200 then
            Inl (New (''API Error: '' @ Header_Get (Response.Header resp) xErrorHeader))
          else
            (case Response.Body resp of
               Inl err \<Rightarrow> Inl (WithMessage err ''failed to read response body'')
             | Inr respB \<Rightarrow>
                 (case snd (ParseQuery respB) of
                    Some err \<Rightarrow> Inl (WithMessage err ''failed to parse response body'')
                  | None \<Rightarrow> Inr (fst (ParseQuery respB))))),
      [Constructed req, Executed req])"
proof -
  have new: "NewRequestWithContext ctx' MethodPost (host @ endpoint) b =
      Inr \<lparr>Method = MethodPost, URL = host @ endpoint, Header = Map.empty, Body = b, ctx = ctx'\<rparr>"
    using assms(2) by (simp add: NewRequestWithContext_def)
  show ?thesis
  proof (cases "client c req")
    case (Inl err)
    then show ?thesis
      using assms(1,3) new by (simp add: doHTTP_def Let_def)
  next
    case (Inr resp)
    show ?thesis
    proof (cases "StatusCode resp = 200")
      case False
      then show ?thesis
        using assms(1,3) new Inr by (simp add: doHTTP_def Let_def StatusOK_def Sprintf_extra_def)
    next
      case True
      show ?thesis
      proof (cases "Response.Body resp")
        case (Inl err)
        then show ?thesis
          using assms(1,3) new Inr True by (simp add: doHTTP_def Let_def StatusOK_def)
      next
        case respB: (Inr respB)
        obtain vals e where pq: "ParseQuery respB = (vals, e)"
          by (cases "ParseQuery respB")
        show ?thesis
          using assms(1,3) new Inr True respB pq
          by (cases e) (simp_all add: doHTTP_def Let_def StatusOK_def)
      qed
    qed
  qed
qed

lemma doHTTP_executed:
  assumes "Executed req \<in> set (snd (doHTTP c ctx' endpoint body'))"
  shows "\<exists>b. Marshal body' = Inr b \<and> ctx' \<noteq> nil_Context \<and>
     req = \<lparr>Method = MethodPost, URL = host @ endpoint,
             Header = Header_Set Map.empty ''Content-type'' ''application/json; charset=UTF8'',
             Body = b, ctx = ctx'\<rparr>"
proof (cases "Marshal body'")
  case (Inl err)
  with assms show ?thesis
    by (simp add: doHTTP_Marshal_error)
next
  case (Inr b)
  show ?thesis
  proof (cases "ctx' = nil_Context")
    case True
    with assms Inr show ?thesis
      by (simp add: doHTTP_nil_Context)
  next
    case False
    from doHTTP_sent [OF Inr False refl, of c endpoint] assms
    have "req = \<lparr>Method = MethodPost, URL = host @ endpoint,
             Header = Header_Set Map.empty ''Content-type'' ''application/json; charset=UTF8'',
             Body = b, ctx = ctx'\<rparr>"
      by simp
    with Inr False show ?thesis
      by simp
  qed
qed

lemma doHTTP_received:
  assumes "Executed req \<in> set (snd (doHTTP c ctx' endpoint body'))"
    and "client c req = Inr resp"
  shows "fst (doHTTP c ctx' endpoint body') =
     (if StatusCode resp \<noteq> 200 then
        Inl (New (''API Error: '' @ Header_Get (Response.Header resp) xErrorHeader))
      else
        (case Response.Body resp of
           Inl err \<Rightarrow> Inl (WithMessage err ''failed to read response body'')
         | Inr respB \<Rightarrow>
             (case snd (ParseQuery respB) of
                Some err \<Rightarrow> Inl (WithMessage err ''failed to parse response body'')
              | None \<Rightarrow> Inr (fst (ParseQuery respB)))))"
proof -
  from doHTTP_executed [OF assms(1)] obtain b where
    b: "Marshal body' = Inr b" and ctx: "ctx' \<noteq> nil_Context" and
    req: "req = \<lparr>Method = MethodPost, URL = host @ endpoint,
             Header = Header_Set Map.empty ''Content-type'' ''application/json; charset=UTF8'',
             Body = b, ctx = ctx'\<rparr>"
    by blast
  show ?thesis
    unfolding doHTTP_sent [OF b ctx req] using assms(2) by simp
qed

lemma doHTTP_executes:
  assumes "Marshal body' = Inr b" and "ctx' \<noteq> nil_Context"
  shows "\<exists>req. Executed req \<in> set (snd (doHTTP c ctx' endpoint body'))"
  using doHTTP_sent [OF assms refl, of c endpoint] by simp

lemma GetRequestToken_doHTTP:
  "GetRequestToken c ctx' redirectUrl =
     ((case fst (doHTTP c ctx' endpointRequestToken
          (RequestTokenRequest \<lparr>requestTokenRequest.ConsumerKey = consumerKey c, RedirectUrl = redirectUrl\<rparr>)) of
         Inl err \<Rightarrow> Inl err
       | Inr vals \<Rightarrow>
           if Values_Get vals ''code'' = [] then Inl (New ''empty request token in API response'')
           else Inr (Values_Get vals ''code'')),
      snd (doHTTP c ctx' endpointRequestToken
          (RequestTokenRequest \<lparr>requestTokenRequest.ConsumerKey = consumerKey c, RedirectUrl = redirectUrl\<rparr>)))"
  by (simp add: GetRequestToken_def Let_def split: prod.split sum.split)

lemma Authorize_doHTTP:
  "requestToken \<noteq> [] \<Longrightarrow>
   Authorize c ctx' requestToken =
     ((case fst (doHTTP c ctx' endpointAuthorize
          (AuthorizeRequest \<lparr>authorizeRequest.ConsumerKey = consumerKey c, Code = requestToken\<rparr>)) of
         Inl err \<Rightarrow> Inl err
       | Inr vals \<Rightarrow>
           if Values_Get vals ''access_token'' = [] then Inl (New ''empty access token in API response'')
           else Inr \<lparr>Access_token = Values_Get vals ''access_token'',
                     Username = Values_Get vals ''username''\<rparr>),
      snd (doHTTP c ctx' endpointAuthorize
          (AuthorizeRequest \<lparr>authorizeRequest.ConsumerKey = consumerKey c, Code = requestToken\<rparr>)))"
  by (simp add: Authorize_def Let_def split: prod.split sum.split)

lemma Add_doHTTP:
  "validate input = None \<Longrightarrow>
   Add c ctx' input =
     ((case fst (doHTTP c ctx' endpointAdd (AddRequest (generateRequest input (consumerKey c)))) of
         Inl err \<Rightarrow> Some err
       | Inr vals \<Rightarrow> None),
      snd (doHTTP c ctx' endpointAdd (AddRequest (generateRequest input (consumerKey c)))))"
  by (simp add: Add_def Let_def split: prod.split sum.split)

lemma validate_None: "validate i = None \<longleftrightarrow> AddInput.URL i \<noteq> [] \<and> AddInput.AccessToken i \<noteq> []"
  by (simp add: validate_def)

subsection \<open>The dispatch helper\<close>

text \<open>
  Claim C1, as the code has it. For every response the dispatch helper \<open>doHTTP\<close>
  receives: when the status is 200 it reads the whole body and parses it as URL-encoded
  form values, and returns the values, or the error of the read or of the parse, wrapped;
  when the status is outside 200..299 it returns the error whose text is \<open>API Error: \<close>
  followed by the first value of the response's \<open>X-Error\<close> header, empty when the header
  is absent.
\<close>

theorem doHTTP_response:
  assumes "Executed req \<in> set (snd (doHTTP c ctx' endpoint body'))"
    and "client c req = Inr resp"
  shows "(StatusCode resp = 200 \<longrightarrow>
            fst (doHTTP c ctx' endpoint body') =
              (case Response.Body resp of
                 Inl err \<Rightarrow> Inl (WithMessage err ''failed to read response body'')
               | Inr respB \<Rightarrow>
                   (case snd (ParseQuery respB) of
                      Some err \<Rightarrow> Inl (WithMessage err ''failed to parse response body'')
                    | None \<Rightarrow> Inr (fst (ParseQuery respB))))) \<and>
         (\<not> (200 \<le> StatusCode resp \<and> StatusCode resp < 300) \<longrightarrow>
            fst (doHTTP c ctx' endpoint body') =
              Inl (New (''API Error: '' @
                (case Response.Header resp ''X-Error'' of
                   None \<Rightarrow> []
                 | Some v \<Rightarrow> (case v of [] \<Rightarrow> [] | x # _ \<Rightarrow> x)))))"
  using doHTTP_received [OF assms] by (simp add: Header_Get_xErrorHeader)

text \<open>
  The theorem at two responses: status 200 with the body \<open>code=ABC\<close>, and status 400
  with the header \<open>X-Error: Bad request\<close>.
\<close>

theorem doHTTP_response_witness:
  "(case fst (doHTTP (newClient 200 ''/v3/oauth/request'' ''code=ABC'') Background
            endpointRequestToken
            (RequestTokenRequest
               \<lparr>requestTokenRequest.ConsumerKey = ''key'', RedirectUrl = ''http://localhost:80/''\<rparr>)) of
      Inl err \<Rightarrow> False
    | Inr vals \<Rightarrow> Values_Get vals ''code'' = ''ABC'') \<and>
   fst (doHTTP ((newClient 400 ''/v3/oauth/request'' [])\<lparr>client := \<lambda>r. Inr
           \<lparr>StatusCode = 400, Header = [''X-Error'' \<mapsto> [''Bad request'']], Body = Inr []\<rparr>\<rparr>)
         Background endpointRequestToken
         (RequestTokenRequest
            \<lparr>requestTokenRequest.ConsumerKey = ''key'', RedirectUrl = ''http://localhost:80/''\<rparr>)) =
     Inl (New ''API Error: Bad request'')"
proof -
  let ?body = "RequestTokenRequest
    \<lparr>requestTokenRequest.ConsumerKey = ''key'', RedirectUrl = ''http://localhost:80/''\<rparr>"
  let ?c1 = "newClient 200 ''/v3/oauth/request'' ''code=ABC''"
  let ?r1 = "\<lparr>StatusCode = 200, Header = Map.empty, Body = Inr ''code=ABC''\<rparr>"
  let ?r2 = "\<lparr>StatusCode = 400, Header = [''X-Error'' \<mapsto> [''Bad request'']], Body = Inr []\<rparr>"
  let ?c2 = "(newClient 400 ''/v3/oauth/request'' [])\<lparr>client := \<lambda>r. Inr ?r2\<rparr>"
  have m: "Marshal ?body = Inr (structEncoder (requestTokenRequest_fields
      \<lparr>requestTokenRequest.ConsumerKey = ''key'', RedirectUrl = ''http://localhost:80/''\<rparr>))"
    by (simp add: Marshal_def)
  have p: "snd (ParseQuery ''code=ABC'') = None"
    and v: "Values_Get (fst (ParseQuery ''code=ABC'')) ''code'' = ''ABC''"
    by code_simp+
  obtain req1 where e1: "Executed req1 \<in> set (snd (doHTTP ?c1 Background endpointRequestToken ?body))"
    using doHTTP_executes [OF m, of Background ?c1 endpointRequestToken] by auto
  have r1: "client ?c1 req1 = Inr ?r1"
    by (simp add: newClient_def)
  obtain req2 where e2: "Executed req2 \<in> set (snd (doHTTP ?c2 Background endpointRequestToken ?body))"
    using doHTTP_executes [OF m, of Background ?c2 endpointRequestToken] by auto
  have r2: "client ?c2 req2 = Inr ?r2"
    by simp
  from doHTTP_response [OF e1 r1] doHTTP_response [OF e2 r2] p v show ?thesis
    by simp
qed

text \<open>
  Claim C1 as the specification states it does not hold: a response with status 200
  whose body is \<open>%\<close> makes the helper return an error, and so does a response with
  status 201, whose body is not read.
\<close>

theorem doHTTP_error_on_2xx:
  "fst (doHTTP (newClient 200 ''/v3/add'' ''%'') Background endpointAdd
        (AddRequest (generateRequest
           \<lparr>URL = ''http://example.link'', Title = [], Tags = [], AccessToken = ''token''\<rparr> ''key''))) =
     Inl (WithMessage (EscapeError ''%'') ''failed to parse response body'') \<and>
   fst (doHTTP (newClient 201 ''/v3/add'' ''code=ABC'') Background endpointAdd
        (AddRequest (generateRequest
           \<lparr>URL = ''http://example.link'', Title = [], Tags = [], AccessToken = ''token''\<rparr> ''key''))) =
     Inl (New ''API Error: '')"
proof -
  have m: "Marshal (AddRequest (generateRequest
           \<lparr>URL = ''http://example.link'', Title = [], Tags = [], AccessToken = ''token''\<rparr> ''key'')) =
      Inr (structEncoder (addRequest_fields (generateRequest
           \<lparr>URL = ''http://example.link'', Title = [], Tags = [], AccessToken = ''token''\<rparr> ''key'')))"
    by (simp add: Marshal_def)
  have p: "snd (ParseQuery ''%'') = Some (EscapeError ''%'')"
    by code_simp
  have c: "Background \<noteq> nil_Context"
    by simp
  show ?thesis
    unfolding doHTTP_sent [OF m c refl]
    by (simp add: newClient_def p Header_Get_xErrorHeader)
qed

subsection \<open>GetRequestToken\<close>

text \<open>
  Claim C2 fails on the code: \<open>GetRequestToken\<close> does not look at the redirect URL.
  With an empty redirect URL and a response of status 200 and body \<open>code=ABC\<close> it
  returns the token \<open>ABC\<close>.
\<close>

theorem GetRequestToken_empty_redirect_succeeds:
  "fst (GetRequestToken (newClient 200 ''/v3/oauth/request'' ''code=ABC'') Background []) = Inr ''ABC''"
proof -
  let ?c = "newClient 200 ''/v3/oauth/request'' ''code=ABC''"
  let ?body = "RequestTokenRequest \<lparr>requestTokenRequest.ConsumerKey = consumerKey ?c, RedirectUrl = []\<rparr>"
  have m: "Marshal ?body = Inr (structEncoder (requestTokenRequest_fields
      \<lparr>requestTokenRequest.ConsumerKey = consumerKey ?c, RedirectUrl = []\<rparr>))"
    by (simp add: Marshal_def)
  have c: "Background \<noteq> nil_Context"
    by simp
  have p: "snd (ParseQuery ''code=ABC'') = None"
    by code_simp
  have v: "Values_Get (fst (ParseQuery ''code=ABC'')) ''code'' = ''ABC''"
    by code_simp
  have "fst (doHTTP ?c Background endpointRequestToken ?body) = Inr (fst (ParseQuery ''code=ABC''))"
    unfolding doHTTP_sent [OF m c refl] by (simp add: newClient_def p)
  then show ?thesis
    unfolding GetRequestToken_doHTTP by (simp add: v)
qed

text \<open>
  Claim C7, as the code has it. When \<open>GetRequestToken\<close> receives a response with
  status 200: if the body cannot be read, or does not parse as form values, it fails
  with that error, wrapped; otherwise it returns the first value of the key \<open>code\<close>
  when that is not empty, and fails with \<open>empty request token in API response\<close> when
  the key is absent or its value is empty.
\<close>

theorem GetRequestToken_status_200:
  assumes "Executed req \<in> set (snd (GetRequestToken c ctx' redirectUrl))"
    and "client c req = Inr resp" and "StatusCode resp = 200"
  shows "fst (GetRequestToken c ctx' redirectUrl) =
     (case Response.Body resp of
        Inl err \<Rightarrow> Inl (WithMessage err ''failed to read response body'')
      | Inr respB \<Rightarrow>
          (case snd (ParseQuery respB) of
             Some err \<Rightarrow> Inl (WithMessage err ''failed to parse response body'')
           | None \<Rightarrow>
               if Values_Get (fst (ParseQuery respB)) ''code'' = [] then
                 Inl (New ''empty request token in API response'')
               else Inr (Values_Get (fst (ParseQuery respB)) ''code'')))"
proof -
  from assms(1) have "Executed req \<in> set (snd (doHTTP c ctx' endpointRequestToken
      (RequestTokenRequest \<lparr>requestTokenRequest.ConsumerKey = consumerKey c, RedirectUrl = redirectUrl\<rparr>)))"
    by (simp add: GetRequestToken_doHTTP)
  from doHTTP_received [OF this assms(2)] assms(3) show ?thesis
    by (simp add: GetRequestToken_doHTTP split: sum.split option.split)
qed

text \<open>
  The theorem at the bodies \<open>code=ABC\<close>, \<open>code=\<close>, \<open>state=1\<close> and
  \<open>code=qwe%2Drty+123\<close>, where the escape and the plus sign are decoded, and at a
  body that cannot be read.
\<close>

theorem GetRequestToken_status_200_witness:
  "fst (GetRequestToken (newClient 200 ''/v3/oauth/request'' ''code=ABC'') Background
         ''http://localhost:80/'') = Inr ''ABC'' \<and>
   fst (GetRequestToken (newClient 200 ''/v3/oauth/request'' ''code='') Background
         ''http://localhost:80/'') = Inl (New ''empty request token in API response'') \<and>
   fst (GetRequestToken (newClient 200 ''/v3/oauth/request'' ''state=1'') Background
         ''http://localhost:80/'') = Inl (New ''empty request token in API response'') \<and>
   fst (GetRequestToken (newClient 200 ''/v3/oauth/request'' ''code=qwe%2Drty+123'') Background
         ''http://localhost:80/'') = Inr ''qwe-rty 123'' \<and>
   fst (GetRequestToken ((newClient 200 ''/v3/oauth/request'' [])\<lparr>client := \<lambda>r. Inr
           \<lparr>StatusCode = 200, Header = Map.empty, Body = Inl (Foreign ''unexpected EOF'')\<rparr>\<rparr>)
         Background ''http://localhost:80/'') =
     Inl (WithMessage (Foreign ''unexpected EOF'') ''failed to read response body'')"
proof -
  let ?r5 = "\<lparr>StatusCode = 200, Header = Map.empty, Body = Inl (Foreign ''unexpected EOF'')\<rparr>"
  let ?c5 = "(newClient 200 ''/v3/oauth/request'' [])\<lparr>client := \<lambda>r. Inr ?r5\<rparr>"
  have c: "Background \<noteq> nil_Context"
    by simp
  have m: "Marshal (RequestTokenRequest r) = Inr (structEncoder (requestTokenRequest_fields r))" for r
    by (simp add: Marshal_def)
  have ex: "\<exists>req. Executed req \<in> set (snd (GetRequestToken cl Background ''http://localhost:80/''))" for cl
    unfolding GetRequestToken_doHTTP using doHTTP_executes [OF m c] by simp
  have p1: "snd (ParseQuery ''code=ABC'') = None" and v1: "Values_Get (fst (ParseQuery ''code=ABC'')) ''code'' = ''ABC''"
    by code_simp+
  have p2: "snd (ParseQuery ''code='') = None" and v2: "Values_Get (fst (ParseQuery ''code='')) ''code'' = []"
    by code_simp+
  have p3: "snd (ParseQuery ''state=1'') = None" and v3: "Values_Get (fst (ParseQuery ''state=1'')) ''code'' = []"
    by code_simp+
  have p4: "snd (ParseQuery ''code=qwe%2Drty+123'') = None"
    and v4: "Values_Get (fst (ParseQuery ''code=qwe%2Drty+123'')) ''code'' = ''qwe-rty 123''"
    by code_simp+
  obtain req1 where e1: "Executed req1 \<in> set (snd (GetRequestToken
      (newClient 200 ''/v3/oauth/request'' ''code=ABC'') Background ''http://localhost:80/''))"
    using ex by blast
  obtain req2 where e2: "Executed req2 \<in> set (snd (GetRequestToken
      (newClient 200 ''/v3/oauth/request'' ''code='') Background ''http://localhost:80/''))"
    using ex by blast
  obtain req3 where e3: "Executed req3 \<in> set (snd (GetRequestToken
      (newClient 200 ''/v3/oauth/request'' ''state=1'') Background ''http://localhost:80/''))"
    using ex by blast
  obtain req4 where e4: "Executed req4 \<in> set (snd (GetRequestToken
      (newClient 200 ''/v3/oauth/request'' ''code=qwe%2Drty+123'') Background ''http://localhost:80/''))"
    using ex by blast
  obtain req5 where e5: "Executed req5 \<in> set (snd (GetRequestToken ?c5 Background ''http://localhost:80/''))"
    using ex by blast
  have r: "client (newClient s pa b) rq = Inr \<lparr>StatusCode = s, Header = Map.empty, Body = Inr b\<rparr>" for s pa b rq
    by (simp add: newClient_def)
  have r5: "client ?c5 req5 = Inr ?r5"
    by simp
  from GetRequestToken_status_200 [OF e1 r] GetRequestToken_status_200 [OF e2 r]
    GetRequestToken_status_200 [OF e3 r] GetRequestToken_status_200 [OF e4 r]
    GetRequestToken_status_200 [OF e5 r5]
  show ?thesis
    by (simp add: p1 v1 p2 v2 p3 v3 p4 v4)
qed

text \<open>
  Claim C7 as the specification states it does not hold: on a response with status
  200 and the body \<open>code=ABC&%\<close> the value of the key \<open>code\<close> in the body is \<open>ABC\<close>,
  and \<open>GetRequestToken\<close> fails with the error of the parse.
\<close>

theorem GetRequestToken_status_200_parse_error:
  "Values_Get (fst (ParseQuery ''code=ABC&%'')) ''code'' = ''ABC'' \<and>
   fst (GetRequestToken (newClient 200 ''/v3/oauth/request'' ''code=ABC&%'') Background
         ''http://localhost:80/'') =
     Inl (WithMessage (EscapeError ''%'') ''failed to parse response body'')"
proof -
  let ?c = "newClient 200 ''/v3/oauth/request'' ''code=ABC&%''"
  have m: "Marshal (RequestTokenRequest r) = Inr (structEncoder (requestTokenRequest_fields r))" for r
    by (simp add: Marshal_def)
  have c: "Background \<noteq> nil_Context"
    by simp
  have p: "snd (ParseQuery ''code=ABC&%'') = Some (EscapeError ''%'')"
    and v: "Values_Get (fst (ParseQuery ''code=ABC&%'')) ''code'' = ''ABC''"
    by code_simp+
  have "fst (doHTTP ?c Background endpointRequestToken (RequestTokenRequest
      \<lparr>requestTokenRequest.ConsumerKey = consumerKey ?c, RedirectUrl = ''http://localhost:80/''\<rparr>)) =
      Inl (WithMessage (EscapeError ''%'') ''failed to parse response body'')"
    unfolding doHTTP_sent [OF m c refl] by (simp add: newClient_def p)
  then show ?thesis
    unfolding GetRequestToken_doHTTP by (simp add: v)
qed

subsection \<open>Authorize\<close>

text \<open>
  Claim C6, as the code has it. When \<open>Authorize\<close>, called with a request token that
  is not empty, receives a response with status 200: if the body cannot be read, or
  does not parse as form values, it fails with that error, wrapped; otherwise it
  returns the first value of \<open>access_token\<close> and the first value of \<open>username\<close>
  (empty when absent) when the access token is not empty, and fails with
  \<open>empty access token in API response\<close> when it is absent or empty.
\<close>

theorem Authorize_status_200:
  assumes "requestToken \<noteq> []"
    and "Executed req \<in> set (snd (Authorize c ctx' requestToken))"
    and "client c req = Inr resp" and "StatusCode resp = 200"
  shows "fst (Authorize c ctx' requestToken) =
     (case Response.Body resp of
        Inl err \<Rightarrow> Inl (WithMessage err ''failed to read response body'')
      | Inr respB \<Rightarrow>
          (case snd (ParseQuery respB) of
             Some err \<Rightarrow> Inl (WithMessage err ''failed to parse response body'')
           | None \<Rightarrow>
               if Values_Get (fst (ParseQuery respB)) ''access_token'' = [] then
                 Inl (New ''empty access token in API response'')
               else Inr \<lparr>Access_token = Values_Get (fst (ParseQuery respB)) ''access_token'',
                         Username = Values_Get (fst (ParseQuery respB)) ''username''\<rparr>))"
proof -
  from assms(1,2) have "Executed req \<in> set (snd (doHTTP c ctx' endpointAuthorize
      (AuthorizeRequest \<lparr>authorizeRequest.ConsumerKey = consumerKey c, Code = requestToken\<rparr>)))"
    by (simp add: Authorize_doHTTP)
  from doHTTP_received [OF this assms(3)] assms(1,4) show ?thesis
    by (simp add: Authorize_doHTTP split: sum.split option.split)
qed

text \<open>
  The theorem at five bodies: both keys, the access token alone, the user name alone,
  an empty access token, and both keys with an escape and a plus sign, which are
  decoded; and at a body that cannot be read.
\<close>

theorem Authorize_status_200_witness:
  "fst (Authorize (newClient 200 ''/v3/oauth/authorize'' ''access_token=qwe-rty-123&username=testuser'')
         Background ''token'') =
     Inr \<lparr>Access_token = ''qwe-rty-123'', Username = ''testuser''\<rparr> \<and>
   fst (Authorize (newClient 200 ''/v3/oauth/authorize'' ''access_token=X'') Background ''token'') =
     Inr \<lparr>Access_token = ''X'', Username = []\<rparr> \<and>
   fst (Authorize (newClient 200 ''/v3/oauth/authorize'' ''username=testuser'') Background ''token'') =
     Inl (New ''empty access token in API response'') \<and>
   fst (Authorize (newClient 200 ''/v3/oauth/authorize'' ''access_token=&username=testuser'')
         Background ''token'') =
     Inl (New ''empty access token in API response'') \<and>
   fst (Authorize (newClient 200 ''/v3/oauth/authorize'' ''access_token=a%2Fb&username=test+user'')
         Background ''token'') =
     Inr \<lparr>Access_token = ''a/b'', Username = ''test user''\<rparr> \<and>
   fst (Authorize ((newClient 200 ''/v3/oauth/authorize'' [])\<lparr>client := \<lambda>r. Inr
           \<lparr>StatusCode = 200, Header = Map.empty, Body = Inl (Foreign ''unexpected EOF'')\<rparr>\<rparr>)
         Background ''token'') =
     Inl (WithMessage (Foreign ''unexpected EOF'') ''failed to read response body'')"
proof -
  let ?r6 = "\<lparr>StatusCode = 200, Header = Map.empty, Body = Inl (Foreign ''unexpected EOF'')\<rparr>"
  let ?c6 = "(newClient 200 ''/v3/oauth/authorize'' [])\<lparr>client := \<lambda>r. Inr ?r6\<rparr>"
  have c: "Background \<noteq> nil_Context"
    by simp
  have t: "''token'' \<noteq> []"
    by simp
  have m: "Marshal (AuthorizeRequest r) = Inr (structEncoder (authorizeRequest_fields r))" for r
    by (simp add: Marshal_def)
  have ex: "\<exists>req. Executed req \<in> set (snd (Authorize cl Background ''token''))" for cl
    unfolding Authorize_doHTTP [OF t] using doHTTP_executes [OF m c] by simp
  have p1: "snd (ParseQuery ''access_token=qwe-rty-123&username=testuser'') = None"
    and a1: "Values_Get (fst (ParseQuery ''access_token=qwe-rty-123&username=testuser'')) ''access_token'' = ''qwe-rty-123''"
    and u1: "Values_Get (fst (ParseQuery ''access_token=qwe-rty-123&username=testuser'')) ''username'' = ''testuser''"
    by code_simp+
  have p2: "snd (ParseQuery ''access_token=X'') = None"
    and a2: "Values_Get (fst (ParseQuery ''access_token=X'')) ''access_token'' = ''X''"
    and u2: "Values_Get (fst (ParseQuery ''access_token=X'')) ''username'' = []"
    by code_simp+
  have p3: "snd (ParseQuery ''username=testuser'') = None"
    and a3: "Values_Get (fst (ParseQuery ''username=testuser'')) ''access_token'' = []"
    by code_simp+
  have p4: "snd (ParseQuery ''access_token=&username=testuser'') = None"
    and a4: "Values_Get (fst (ParseQuery ''access_token=&username=testuser'')) ''access_token'' = []"
    by code_simp+
  have p5: "snd (ParseQuery ''access_token=a%2Fb&username=test+user'') = None"
    and a5: "Values_Get (fst (ParseQuery ''access_token=a%2Fb&username=test+user'')) ''access_token'' = ''a/b''"
    and u5: "Values_Get (fst (ParseQuery ''access_token=a%2Fb&username=test+user'')) ''username'' = ''test user''"
    by code_simp+
  obtain req1 where e1: "Executed req1 \<in> set (snd (Authorize
      (newClient 200 ''/v3/oauth/authorize'' ''access_token=qwe-rty-123&username=testuser'') Background ''token''))"
    using ex by blast
  obtain req2 where e2: "Executed req2 \<in> set (snd (Authorize
      (newClient 200 ''/v3/oauth/authorize'' ''access_token=X'') Background ''token''))"
    using ex by blast
  obtain req3 where e3: "Executed req3 \<in> set (snd (Authorize
      (newClient 200 ''/v3/oauth/authorize'' ''username=testuser'') Background ''token''))"
    using ex by blast
  obtain req4 where e4: "Executed req4 \<in> set (snd (Authorize
      (newClient 200 ''/v3/oauth/authorize'' ''access_token=&username=testuser'') Background ''token''))"
    using ex by blast
  obtain req5 where e5: "Executed req5 \<in> set (snd (Authorize
      (newClient 200 ''/v3/oauth/authorize'' ''access_token=a%2Fb&username=test+user'') Background ''token''))"
    using ex by blast
  obtain req6 where e6: "Executed req6 \<in> set (snd (Authorize ?c6 Background ''token''))"
    using ex by blast
  have r: "client (newClient s pa b) rq = Inr \<lparr>StatusCode = s, Header = Map.empty, Body = Inr b\<rparr>" for s pa b rq
    by (simp add: newClient_def)
  have r6: "client ?c6 req6 = Inr ?r6"
    by simp
  from Authorize_status_200 [OF t e1 r] Authorize_status_200 [OF t e2 r]
    Authorize_status_200 [OF t e3 r] Authorize_status_200 [OF t e4 r]
    Authorize_status_200 [OF t e5 r] Authorize_status_200 [OF t e6 r6]
  show ?thesis
    by (simp add: p1 a1 u1 p2 a2 u2 p3 a3 p4 a4 p5 a5 u5)
qed

text \<open>
  Claim C6 as the specification states it does not hold: on a response with status
  200 and the body \<open>access_token=X&username=Y&%\<close> the body has \<open>access_token=X\<close> and
  \<open>username=Y\<close>, and \<open>Authorize\<close> fails with the error of the parse.
\<close>

theorem Authorize_status_200_parse_error:
  "Values_Get (fst (ParseQuery ''access_token=X&username=Y&%'')) ''access_token'' = ''X'' \<and>
   Values_Get (fst (ParseQuery ''access_token=X&username=Y&%'')) ''username'' = ''Y'' \<and>
   fst (Authorize (newClient 200 ''/v3/oauth/authorize'' ''access_token=X&username=Y&%'')
         Background ''token'') =
     Inl (WithMessage (EscapeError ''%'') ''failed to parse response body'')"
proof -
  let ?c = "newClient 200 ''/v3/oauth/authorize'' ''access_token=X&username=Y&%''"
  have t: "''token'' \<noteq> []"
    by simp
  have m: "Marshal (AuthorizeRequest r) = Inr (structEncoder (authorizeRequest_fields r))" for r
    by (simp add: Marshal_def)
  have c: "Background \<noteq> nil_Context"
    by simp
  have p: "snd (ParseQuery ''access_token=X&username=Y&%'') = Some (EscapeError ''%'')"
    and a: "Values_Get (fst (ParseQuery ''access_token=X&username=Y&%'')) ''access_token'' = ''X''"
    and u: "Values_Get (fst (ParseQuery ''access_token=X&username=Y&%'')) ''username'' = ''Y''"
    by code_simp+
  have "fst (doHTTP ?c Background endpointAuthorize (AuthorizeRequest
      \<lparr>authorizeRequest.ConsumerKey = consumerKey ?c, Code = ''token''\<rparr>)) =
      Inl (WithMessage (EscapeError ''%'') ''failed to parse response body'')"
    unfolding doHTTP_sent [OF m c refl] by (simp add: newClient_def p)
  then show ?thesis
    unfolding Authorize_doHTTP [OF t] by (simp add: a u)
qed

subsection \<open>Add\<close>

text \<open>
  Claim C3, as the code has it. For an input whose URL and access token are not empty,
  on a response with status 200 \<open>Add\<close> succeeds exactly when the body is read and
  parses as form values; the values are discarded. When the body cannot be read or
  parsed, \<open>Add\<close> returns that error, wrapped.
\<close>

theorem Add_status_200:
  assumes "AddInput.URL input \<noteq> []" and "AddInput.AccessToken input \<noteq> []"
    and "Executed req \<in> set (snd (Add c ctx' input))"
    and "client c req = Inr resp" and "StatusCode resp = 200"
  shows "fst (Add c ctx' input) =
     (case Response.Body resp of
        Inl err \<Rightarrow> Some (WithMessage err ''failed to read response body'')
      | Inr respB \<Rightarrow>
          (case snd (ParseQuery respB) of
             Some err \<Rightarrow> Some (WithMessage err ''failed to parse response body'')
           | None \<Rightarrow> None))"
proof -
  from assms(1,2) have v: "validate input = None"
    by (simp add: validate_None)
  from assms(3) have "Executed req \<in> set (snd (doHTTP c ctx' endpointAdd
      (AddRequest (generateRequest input (consumerKey c)))))"
    by (simp add: Add_doHTTP [OF v])
  from doHTTP_received [OF this assms(4)] assms(5) show ?thesis
    by (simp add: Add_doHTTP [OF v] split: sum.split option.split)
qed

text \<open>The theorem at an empty body and at a body of two pairs.\<close>

theorem Add_status_200_witness:
  "fst (Add (newClient 200 ''/v3/add'' []) Background
         \<lparr>URL = ''http://example.link'', Title = ''example'', Tags = [''qwe'', ''rty'', ''123''],
          AccessToken = ''token''\<rparr>) = None \<and>
   fst (Add (newClient 200 ''/v3/add'' ''item_id=1&status=1'') Background
         \<lparr>URL = ''http://example.link'', Title = [], Tags = [], AccessToken = ''token''\<rparr>) = None"
proof -
  let ?i1 = "\<lparr>URL = ''http://example.link'', Title = ''example'', Tags = [''qwe'', ''rty'', ''123''],
          AccessToken = ''token''\<rparr>"
  let ?i2 = "\<lparr>URL = ''http://example.link'', Title = [], Tags = [], AccessToken = ''token''\<rparr>"
  have c: "Background \<noteq> nil_Context"
    by simp
  have m: "Marshal (AddRequest r) = Inr (structEncoder (addRequest_fields r))" for r
    by (simp add: Marshal_def)
  have v1: "validate ?i1 = None" and v2: "validate ?i2 = None"
    by (simp_all add: validate_def)
  have p1: "snd (ParseQuery []) = None" and p2: "snd (ParseQuery ''item_id=1&status=1'') = None"
    by code_simp+
  obtain req1 where e1: "Executed req1 \<in> set (snd (Add (newClient 200 ''/v3/add'' []) Background ?i1))"
    unfolding Add_doHTTP [OF v1] using doHTTP_executes [OF m c] by fastforce
  obtain req2 where e2: "Executed req2 \<in> set (snd (Add (newClient 200 ''/v3/add'' ''item_id=1&status=1'') Background ?i2))"
    unfolding Add_doHTTP [OF v2] using doHTTP_executes [OF m c] by fastforce
  have r: "client (newClient s pa b) rq = Inr \<lparr>StatusCode = s, Header = Map.empty, Body = Inr b\<rparr>" for s pa b rq
    by (simp add: newClient_def)
  from Add_status_200 [OF _ _ e1 r] Add_status_200 [OF _ _ e2 r] p1 p2
  show ?thesis
    by simp
qed

text \<open>
  Claim C3 as the specification states it does not hold: with a valid input and a
  response of status 200 whose body is \<open>%\<close>, \<open>Add\<close> fails with the error of the parse.
\<close>

theorem Add_status_200_body_error:
  "fst (Add (newClient 200 ''/v3/add'' ''%'') Background
         \<lparr>URL = ''http://example.link'', Title = [], Tags = [], AccessToken = ''token''\<rparr>) =
     Some (WithMessage (EscapeError ''%'') ''failed to parse response body'')"
proof -
  let ?i = "\<lparr>URL = ''http://example.link'', Title = [], Tags = [], AccessToken = ''token''\<rparr>"
  have v: "validate ?i = None"
    by (simp add: validate_def)
  have m: "Marshal (AddRequest (generateRequest ?i (consumerKey (newClient 200 ''/v3/add'' ''%'')))) =
      Inr (structEncoder (addRequest_fields (generateRequest ?i (consumerKey (newClient 200 ''/v3/add'' ''%'')))))"
    by (simp add: Marshal_def)
  have c: "Background \<noteq> nil_Context"
    by simp
  have p: "snd (ParseQuery ''%'') = Some (EscapeError ''%'')"
    by code_simp
  show ?thesis
    unfolding Add_doHTTP [OF v] doHTTP_sent [OF m c refl] by (simp add: newClient_def p)
qed

subsection \<open>The JSON of an addRequest\<close>

lemma typeField_addRequest:
  "typeField \<lparr>Name = ''URL'', Tag = ''url'', Value = v\<rparr> = Some (''url'', False)"
  "typeField \<lparr>Name = ''Title'', Tag = ''title, omitempty'', Value = v\<rparr> = Some (''title'', False)"
  "typeField \<lparr>Name = ''Tags'', Tag = ''tags, omitempty'', Value = v\<rparr> = Some (''tags'', False)"
  "typeField \<lparr>Name = ''AccessToken'', Tag = ''access_token'', Value = v\<rparr> = Some (''access_token'', False)"
  "typeField \<lparr>Name = ''ConsumerKey'', Tag = ''consumer_key'', Value = v\<rparr> = Some (''consumer_key'', False)"
  by code_simp+

lemma typeField_omitempty:
  "typeField \<lparr>Name = ''Title'', Tag = ''title,omitempty'', Value = v\<rparr> = Some (''title'', True)"
  by code_simp

lemma Marshal_AddRequest_members:
  "Marshal (AddRequest r) =
     Inr (Object [(''url'', addRequest.URL r), (''title'', addRequest.Title r),
                  (''tags'', addRequest.Tags r), (''access_token'', addRequest.AccessToken r),
                  (''consumer_key'', addRequest.ConsumerKey r)])"
  by (simp add: Marshal_def addRequest_fields_def structEncoder_def typeField_addRequest)

text \<open>
  Claim C4. The JSON object of every \<open>addRequest\<close> has the five members \<open>url\<close>,
  \<open>title\<close>, \<open>tags\<close>, \<open>access_token\<close> and \<open>consumer_key\<close>, whatever the values: the
  tags \<open>title, omitempty\<close> and \<open>tags, omitempty\<close> give the keys \<open>title\<close> and \<open>tags\<close>
  and the option \<open> omitempty\<close>, with a space in front, which is not the option
  \<open>omitempty\<close>. With the tag \<open>title,omitempty\<close> an empty title would be left out.
\<close>

theorem Marshal_addRequest:
  "Marshal (AddRequest r) =
     Inr (Object [(''url'', addRequest.URL r), (''title'', addRequest.Title r),
                  (''tags'', addRequest.Tags r), (''access_token'', addRequest.AccessToken r),
                  (''consumer_key'', addRequest.ConsumerKey r)]) \<and>
   parseTag ''title, omitempty'' = (''title'', '' omitempty'') \<and>
   parseTag ''tags, omitempty'' = (''tags'', '' omitempty'') \<and>
   tagOptions_Contains '' omitempty'' ''omitempty'' = False \<and>
   tagOptions_Contains ''omitempty'' ''omitempty'' = True \<and>
   structEncoder [\<lparr>Name = ''Title'', Tag = ''title,omitempty'', Value = []\<rparr>] = Object [] \<and>
   structEncoder [\<lparr>Name = ''Title'', Tag = ''title, omitempty'', Value = []\<rparr>] = Object [(''title'', [])]"
proof -
  have b: "parseTag ''title, omitempty'' = (''title'', '' omitempty'')"
    "parseTag ''tags, omitempty'' = (''tags'', '' omitempty'')"
    "tagOptions_Contains '' omitempty'' ''omitempty'' = False"
    "tagOptions_Contains ''omitempty'' ''omitempty'' = True"
    by code_simp+
  have c: "structEncoder [\<lparr>Name = ''Title'', Tag = ''title,omitempty'', Value = []\<rparr>] = Object []"
    "structEncoder [\<lparr>Name = ''Title'', Tag = ''title, omitempty'', Value = []\<rparr>] = Object [(''title'', [])]"
    by (simp_all add: structEncoder_def typeField_addRequest typeField_omitempty)
  from Marshal_AddRequest_members [of r] b c show ?thesis
    by simp
qed

text \<open>The theorem at a request with an empty title and no tags.\<close>

theorem Marshal_addRequest_witness:
  "Marshal (AddRequest \<lparr>addRequest.URL = ''http://example.link'', Title = [], Tags = [],
      AccessToken = ''token'', ConsumerKey = ''key''\<rparr>) =
     Inr (Object [(''url'', ''http://example.link''), (''title'', []), (''tags'', []),
                  (''access_token'', ''token''), (''consumer_key'', ''key'')])"
  using Marshal_addRequest [of "\<lparr>addRequest.URL = ''http://example.link'', Title = [], Tags = [],
      AccessToken = ''token'', ConsumerKey = ''key''\<rparr>"]
  by simp

subsection \<open>GetAuthorizationURL\<close>

text \<open>
  Claim C5. \<open>GetAuthorizationURL\<close> returns an error exactly when the request token
  or the redirect URL is empty. For two strings that are not empty it returns the
  authorization URL with both put in as they are. The result does not depend on the
  client, and the function has no trace: it reaches no network. For the token
  \<open>qwe-rty-123\<close> and the redirect URL \<open>http://localhost:80/\<close> the result is the URL of
  the specification.
\<close>

theorem GetAuthorizationURL_result:
  "(isl (GetAuthorizationURL c requestToken redirectUrl) \<longleftrightarrow> requestToken = [] \<or> redirectUrl = []) \<and>
   (requestToken \<noteq> [] \<and> redirectUrl \<noteq> [] \<longrightarrow>
      GetAuthorizationURL c requestToken redirectUrl =
        Inr (''https://getpocket.com/auth/authorize?request_token='' @ requestToken @
             ''&redirect_uri='' @ redirectUrl)) \<and>
   GetAuthorizationURL c requestToken redirectUrl = GetAuthorizationURL c' requestToken redirectUrl \<and>
   GetAuthorizationURL c ''qwe-rty-123'' ''http://localhost:80/'' =
     Inr ''https://getpocket.com/auth/authorize?request_token=qwe-rty-123&redirect_uri=http://localhost:80/''"
  by (simp add: GetAuthorizationURL_def Sprintf_authorizeUrl)

text \<open>
  The theorem at a token and a redirect URL with reserved characters, which are not
  encoded, at an empty token and at an empty redirect URL.
\<close>

theorem GetAuthorizationURL_result_witness:
  "GetAuthorizationURL (newClient 200 [] []) ''a%20b&c'' ''http://localhost/?x=1&y=2'' =
     Inr ''https://getpocket.com/auth/authorize?request_token=a%20b&c&redirect_uri=http://localhost/?x=1&y=2'' \<and>
   isl (GetAuthorizationURL (newClient 200 [] []) [] ''http://localhost:80/'') \<and>
   isl (GetAuthorizationURL (newClient 200 [] []) ''qwe-rty-123'' [])"
  using GetAuthorizationURL_result [of "newClient 200 [] []" "''a%20b&c''" "''http://localhost/?x=1&y=2''"]
    GetAuthorizationURL_result [of "newClient 200 [] []" "[]" "''http://localhost:80/''"]
    GetAuthorizationURL_result [of "newClient 200 [] []" "''qwe-rty-123''" "[]"]
  by simp

text \<open>
  Claim C10. The error of \<open>GetAuthorizationURL\<close> is \<open>empty request token\<close> whichever
  argument is empty, also when only the redirect URL is.
\<close>

theorem GetAuthorizationURL_error_text:
  "requestToken = [] \<or> redirectUrl = [] \<Longrightarrow>
   GetAuthorizationURL c requestToken redirectUrl = Inl (New ''empty request token'')"
  by (simp add: GetAuthorizationURL_def)

text \<open>The theorem at the token \<open>qwe-rty-123\<close> and an empty redirect URL.\<close>

theorem GetAuthorizationURL_error_text_witness:
  "GetAuthorizationURL (newClient 200 [] []) ''qwe-rty-123'' [] = Inl (New ''empty request token'')"
  using GetAuthorizationURL_error_text [of "''qwe-rty-123''" "[]" "newClient 200 [] []"]
  by simp

subsection \<open>generateRequest\<close>

lemma fold_Join: "fold (\<lambda>s b. b @ sep @ s) elems e = e @ concat (map (\<lambda>s. sep @ s) elems)"
  by (induction elems arbitrary: e) simp_all

lemma Join_Cons: "Join (e # elems) sep = e @ concat (map (\<lambda>s. sep @ s) elems)"
  by (cases elems) (simp_all add: fold_Join)

text \<open>
  Claim C8. The \<open>Tags\<close> of the request built from an input is \<open>strings.Join\<close> of the
  input's tags with a comma: empty for no tag, otherwise the first tag followed by a
  comma and the next tag, for each further tag. The tags \<open>qwe\<close>, \<open>rty\<close>, \<open>123\<close> give
  \<open>qwe,rty,123\<close>, and the joined string is the value of the member \<open>tags\<close> of the
  request's JSON.
\<close>

theorem generateRequest_Tags:
  "addRequest.Tags (generateRequest i consumerKey') = Join (AddInput.Tags i) '','' \<and>
   Join (AddInput.Tags i) '','' =
     (case AddInput.Tags i of [] \<Rightarrow> [] | t # ts \<Rightarrow> t @ concat (map (\<lambda>s. '','' @ s) ts)) \<and>
   Join [''qwe'', ''rty'', ''123''] '','' = ''qwe,rty,123'' \<and>
   (\<exists>ms. Marshal (AddRequest (generateRequest i consumerKey')) = Inr (Object ms) \<and>
         map_of ms ''tags'' = Some (Join (AddInput.Tags i) '',''))"
proof -
  have "Join (AddInput.Tags i) '','' =
     (case AddInput.Tags i of [] \<Rightarrow> [] | t # ts \<Rightarrow> t @ concat (map (\<lambda>s. '','' @ s) ts))"
    by (cases "AddInput.Tags i") (simp_all only: Join.simps(1) Join_Cons list.case)
  moreover have "addRequest.Tags (generateRequest i consumerKey') = Join (AddInput.Tags i) '',''"
    by (simp add: generateRequest_def)
  moreover have "Join [''qwe'', ''rty'', ''123''] '','' = ''qwe,rty,123''"
    by simp
  moreover have "\<exists>ms. Marshal (AddRequest (generateRequest i consumerKey')) = Inr (Object ms) \<and>
         map_of ms ''tags'' = Some (Join (AddInput.Tags i) '','')"
    using Marshal_AddRequest_members [of "generateRequest i consumerKey'"]
    by (simp add: generateRequest_def)
  ultimately show ?thesis
    by simp
qed

text \<open>The theorem at the tags of the tests and at no tags.\<close>

theorem generateRequest_Tags_witness:
  "addRequest.Tags (generateRequest
      \<lparr>URL = ''http://example.link'', Title = ''example'', Tags = [''qwe'', ''rty'', ''123''],
       AccessToken = ''token''\<rparr> ''key'') = ''qwe,rty,123'' \<and>
   addRequest.Tags (generateRequest
      \<lparr>URL = ''http://example.link'', Title = ''example'', Tags = [],
       AccessToken = ''token''\<rparr> ''key'') = []"
  using generateRequest_Tags [of "\<lparr>URL = ''http://example.link'', Title = ''example'',
      Tags = [''qwe'', ''rty'', ''123''], AccessToken = ''token''\<rparr>" "''key''"]
    generateRequest_Tags [of "\<lparr>URL = ''http://example.link'', Title = ''example'',
      Tags = [], AccessToken = ''token''\<rparr>" "''key''"]
  by simp

subsection \<open>Validation before the network\<close>

lemma Authorize_executes:
  assumes "requestToken \<noteq> []" and "ctx' \<noteq> nil_Context"
  shows "\<exists>req. snd (Authorize c ctx' requestToken) = [Constructed req, Executed req]"
proof -
  have "Marshal (AuthorizeRequest r) = Inr (structEncoder (authorizeRequest_fields r))" for r
    by (simp add: Marshal_def)
  from doHTTP_sent [OF this assms(2) refl] show ?thesis
    by (simp add: Authorize_doHTTP [OF assms(1)])
qed

lemma Add_executes:
  assumes "AddInput.URL input \<noteq> []" and "AddInput.AccessToken input \<noteq> []" and "ctx' \<noteq> nil_Context"
  shows "\<exists>req. snd (Add c ctx' input) = [Constructed req, Executed req]"
proof -
  from assms(1,2) have v: "validate input = None"
    by (simp add: validate_None)
  have "Marshal (AddRequest r) = Inr (structEncoder (addRequest_fields r))" for r
    by (simp add: Marshal_def)
  from doHTTP_sent [OF this assms(3) refl] show ?thesis
    by (simp add: Add_doHTTP [OF v])
qed

text \<open>
  Claim C9. \<open>Authorize\<close> with an empty request token, and \<open>Add\<close> with an empty URL or
  an empty access token, return the validation error with an empty trace: no request
  is constructed and none is executed, whatever the client and the context.
\<close>

theorem validation_errors_no_IO:
  "Authorize c ctx' [] = (Inl (New ''empty request token''), []) \<and>
   (AddInput.URL input = [] \<longrightarrow> Add c ctx' input = (Some (New ''required URL is empty''), [])) \<and>
   (AddInput.URL input \<noteq> [] \<and> AddInput.AccessToken input = [] \<longrightarrow>
      Add c ctx' input = (Some (New ''access token is empty''), []))"
  by (simp add: Authorize_def Add_def validate_def)

text \<open>
  The theorem at an empty request token, an empty URL and an empty access token, on a
  client that would answer 200.
\<close>

theorem validation_errors_no_IO_witness:
  "Authorize (newClient 200 ''/v3/oauth/authorize'' ''access_token=X'') Background [] =
     (Inl (New ''empty request token''), []) \<and>
   Add (newClient 200 ''/v3/add'' []) Background
     \<lparr>URL = [], Title = [], Tags = [], AccessToken = ''token''\<rparr> =
     (Some (New ''required URL is empty''), []) \<and>
   Add (newClient 200 ''/v3/add'' []) Background
     \<lparr>URL = ''http://example.link'', Title = [], Tags = [], AccessToken = []\<rparr> =
     (Some (New ''access token is empty''), [])"
  using validation_errors_no_IO [of "newClient 200 ''/v3/oauth/authorize'' ''access_token=X''" Background
      "\<lparr>URL = [], Title = [], Tags = [], AccessToken = ''token''\<rparr>"]
    validation_errors_no_IO [of "newClient 200 ''/v3/add'' []" Background
      "\<lparr>URL = [], Title = [], Tags = [], AccessToken = ''token''\<rparr>"]
    validation_errors_no_IO [of "newClient 200 ''/v3/add'' []" Background
      "\<lparr>URL = ''http://example.link'', Title = [], Tags = [], AccessToken = []\<rparr>"]
  by simp

end
